theory Spec2Isabelle
  imports Main "HOL-Library.Sublist"
begin

section \<open>JavaScript numbers\<close>

text \<open>
  Route parameters reach the handlers through \<^verbatim>\<open>parseInt\<close>, whose result is an integer,
  \<^verbatim>\<open>NaN\<close> (a missing or non-numeric parameter) or, for a digit string too long for a
  double, an infinity. \<open>Num i\<close> is the number whose exact value is the integer \<open>i\<close>; the
  numbers that JavaScript can hold are the doubles among them. Negative zero behaves as zero
  in every operation used here and is not distinguished.
\<close>

datatype jsnum = Num int | NaN | Infinity | NegInfinity

subsection \<open>Rounding to a double\<close>

text \<open>The number of binary digits of a positive integer.\<close>

function bitlen :: "int \<Rightarrow> nat" where
  "bitlen n = (if n \<le> 0 then 0 else Suc (bitlen (n div 2)))"
  by pat_completeness auto
termination
  by (relation "measure nat") auto

text \<open>
  The result of an arithmetic operation is the exact result rounded to the nearest double,
  ties to the even significand: integers below \<open>2^53\<close> are exact, a larger one keeps its
  53 leading binary digits, and a magnitude that rounds to \<open>2^1024\<close> or more overflows to
  an infinity.
\<close>

definition round_to_double :: "int \<Rightarrow> int" where
  "round_to_double x =
     (if x < 2 ^ 53 then x
      else (let q = 2 ^ (bitlen x - 53);
                m = x div q;
                r = x mod q
            in (if 2 * r < q \<or> (2 * r = q \<and> even m) then m else m + 1) * q))"

definition fl :: "int \<Rightarrow> jsnum" where
  "fl x =
     (let v = round_to_double \<bar>x\<bar>
      in if 2 ^ 1024 \<le> v then (if x < 0 then NegInfinity else Infinity)
         else Num (if x < 0 then - v else v))"

subsection \<open>Operators\<close>

text \<open>\<^verbatim>\<open>a + b\<close>, \<^verbatim>\<open>a - b\<close> and \<^verbatim>\<open>a * b\<close> on numbers.\<close>

fun js_add :: "jsnum \<Rightarrow> jsnum \<Rightarrow> jsnum" where
  "js_add (Num a) (Num b) = fl (a + b)"
| "js_add NaN b = NaN"
| "js_add a NaN = NaN"
| "js_add Infinity NegInfinity = NaN"
| "js_add NegInfinity Infinity = NaN"
| "js_add Infinity b = Infinity"
| "js_add a Infinity = Infinity"
| "js_add NegInfinity b = NegInfinity"
| "js_add a NegInfinity = NegInfinity"

fun js_neg :: "jsnum \<Rightarrow> jsnum" where
  "js_neg (Num a) = Num (- a)"
| "js_neg NaN = NaN"
| "js_neg Infinity = NegInfinity"
| "js_neg NegInfinity = Infinity"

definition js_sub :: "jsnum \<Rightarrow> jsnum \<Rightarrow> jsnum" where
  "js_sub a b = js_add a (js_neg b)"

text \<open>The sign of a product with an infinity; zero times an infinity is \<^verbatim>\<open>NaN\<close>.\<close>

definition signed_infinity :: "int \<Rightarrow> jsnum" where
  "signed_infinity s = (if s = 0 then NaN else if 0 < s then Infinity else NegInfinity)"

fun js_mul :: "jsnum \<Rightarrow> jsnum \<Rightarrow> jsnum" where
  "js_mul (Num a) (Num b) = fl (a * b)"
| "js_mul NaN b = NaN"
| "js_mul a NaN = NaN"
| "js_mul Infinity (Num b) = signed_infinity b"
| "js_mul NegInfinity (Num b) = signed_infinity (- b)"
| "js_mul (Num a) Infinity = signed_infinity a"
| "js_mul (Num a) NegInfinity = signed_infinity (- a)"
| "js_mul Infinity Infinity = Infinity"
| "js_mul NegInfinity NegInfinity = Infinity"
| "js_mul Infinity NegInfinity = NegInfinity"
| "js_mul NegInfinity Infinity = NegInfinity"

text \<open>\<^verbatim>\<open>a < b\<close> and \<^verbatim>\<open>a > n\<close>: every comparison with \<^verbatim>\<open>NaN\<close> is false.\<close>

fun js_lt :: "jsnum \<Rightarrow> jsnum \<Rightarrow> bool" where
  "js_lt (Num a) (Num b) = (a < b)"
| "js_lt NaN b = False"
| "js_lt a NaN = False"
| "js_lt Infinity b = False"
| "js_lt a NegInfinity = False"
| "js_lt NegInfinity b = True"
| "js_lt a Infinity = True"

definition js_gt :: "jsnum \<Rightarrow> int \<Rightarrow> bool" where
  "js_gt x n = js_lt (Num n) x"

text \<open>\<^verbatim>\<open>x % m === 0\<close>: true exactly when \<^verbatim>\<open>x\<close> is an integer multiple of \<^verbatim>\<open>m\<close>
  (the remainder of JavaScript is exact and takes the sign of \<^verbatim>\<open>x\<close>, and both \<^verbatim>\<open>0\<close> and
  \<^verbatim>\<open>-0\<close> are \<^verbatim>\<open>=== 0\<close>); the remainder of an infinity is \<^verbatim>\<open>NaN\<close>.\<close>

fun js_mod_is_zero :: "jsnum \<Rightarrow> int \<Rightarrow> bool" where
  "js_mod_is_zero (Num i) m = (i mod m = 0)"
| "js_mod_is_zero NaN m = False"
| "js_mod_is_zero Infinity m = False"
| "js_mod_is_zero NegInfinity m = False"

text \<open>\<^verbatim>\<open>x || d\<close> on numbers: only \<^verbatim>\<open>0\<close> and \<^verbatim>\<open>NaN\<close> are falsy.\<close>

fun js_or_default :: "jsnum \<Rightarrow> jsnum \<Rightarrow> jsnum" where
  "js_or_default (Num i) d = (if i = 0 then d else Num i)"
| "js_or_default NaN d = d"
| "js_or_default Infinity d = Infinity"
| "js_or_default NegInfinity d = NegInfinity"

subsection \<open>Numbers as text\<close>

text \<open>
  An integer of magnitude below \<open>2^53\<close> is printed with its decimal digits. For a larger
  one the text is made by the engine from the shortest digits that identify the double: it
  is a parameter of the model, as is the first digit of the exponent notation that numbers
  of magnitude \<open>10^21\<close> or more are printed in (\<^verbatim>\<open>1e+21\<close>, \<^verbatim>\<open>-1.5e+22\<close>), a digit from 1
  to 9.
\<close>

datatype digit = D1 | D2 | D3 | D4 | D5 | D6 | D7 | D8 | D9

fun digit_value :: "digit \<Rightarrow> int" where
  "digit_value D1 = 1"
| "digit_value D2 = 2"
| "digit_value D3 = 3"
| "digit_value D4 = 4"
| "digit_value D5 = 5"
| "digit_value D6 = 6"
| "digit_value D7 = 7"
| "digit_value D8 = 8"
| "digit_value D9 = 9"

record engine =
  number_to_string :: "int \<Rightarrow> string"
  first_digit :: "int \<Rightarrow> digit"

definition digit_char :: "nat \<Rightarrow> char" where
  "digit_char d = char_of (48 + d)"

function show_digits :: "int \<Rightarrow> string" where
  "show_digits n =
     (if n < 10 then [digit_char (nat n)]
      else show_digits (n div 10) @ [digit_char (nat (n mod 10))])"
  by pat_completeness auto
termination
  by (relation "measure nat") auto

definition show_int :: "int \<Rightarrow> string" where
  "show_int i = (if i < 0 then CHR ''-'' # show_digits (- i) else show_digits i)"


text \<open>A number in a template string.\<close>

fun show_jsnum :: "engine \<Rightarrow> jsnum \<Rightarrow> string" where
  "show_jsnum E (Num i) = (if \<bar>i\<bar> < 2 ^ 53 then show_int i else number_to_string E i)"
| "show_jsnum E NaN = ''NaN''"
| "show_jsnum E Infinity = ''Infinity''"
| "show_jsnum E NegInfinity = ''-Infinity''"

text \<open>
  \<^verbatim>\<open>parseInt(x)\<close> applied to a number: the number is printed and the text is parsed up to
  the first character that is not a digit. Below \<open>10^21\<close> in magnitude the text is a plain
  decimal that reads back as the same number; from \<open>10^21\<close> on it is in exponent notation
  and only the first digit, with the sign, is read. The text of \<^verbatim>\<open>NaN\<close> and of the
  infinities has no digits.
\<close>

fun parseInt_num :: "engine \<Rightarrow> jsnum \<Rightarrow> jsnum" where
  "parseInt_num E (Num i) =
     (if \<bar>i\<bar> < 10 ^ 21 then Num i
      else if i < 0 then Num (- digit_value (first_digit E i))
      else Num (digit_value (first_digit E i)))"
| "parseInt_num E NaN = NaN"
| "parseInt_num E Infinity = NaN"
| "parseInt_num E NegInfinity = NaN"

section \<open>Arrays and strings\<close>

text \<open>
  \<^verbatim>\<open>Array.prototype.slice(start, end)\<close>: an index that is \<^verbatim>\<open>NaN\<close> counts as 0, a negative
  one counts from the end, and both ends are clamped to the array.
\<close>

fun relative_index :: "int \<Rightarrow> jsnum \<Rightarrow> int" where
  "relative_index len (Num i) = (if i < 0 then max (len + i) 0 else min i len)"
| "relative_index len NaN = 0"
| "relative_index len Infinity = len"
| "relative_index len NegInfinity = 0"

definition js_slice :: "'a list \<Rightarrow> jsnum \<Rightarrow> jsnum \<Rightarrow> 'a list" where
  "js_slice xs start end' =
     (let len = int (length xs);
          k = relative_index len start;
          fin = relative_index len end'
      in take (nat (fin - k)) (drop (nat k) xs))"

text \<open>\<^verbatim>\<open>lines.join('\n')\<close>.\<close>

fun join_lines :: "string list \<Rightarrow> string" where
  "join_lines [] = []"
| "join_lines [l] = l"
| "join_lines (l # ls) = l @ CHR 0x0A # join_lines ls"


section \<open>Fault injection: the request counter\<close>

text \<open>The module variable \<^verbatim>\<open>requestCounter\<close> is passed explicitly. It starts at 0.\<close>

definition initial_requestCounter :: int where
  "initial_requestCounter = 0"

definition getRequestCount :: "int \<Rightarrow> int \<times> int" where
  "getRequestCount requestCounter = (requestCounter + 1, requestCounter + 1)"

definition resetRequestCounter :: "int \<Rightarrow> int" where
  "resetRequestCounter requestCounter = 0"

definition isRateLimited :: "int \<Rightarrow> bool" where
  "isRateLimited requestCounter = (requestCounter mod 5 = 0)"

text \<open>The check as the hard-tier handler performs it: increment, then test. The result is
  the verdict and the new counter.\<close>

definition rate_limit_check :: "int \<Rightarrow> bool \<times> int" where
  "rate_limit_check requestCounter =
     (let (reqCount, requestCounter') = getRequestCount requestCounter
      in (isRateLimited requestCounter', requestCounter'))"

text \<open>\<open>n\<close> checks in a row: the verdicts in call order, and the final counter.\<close>

fun rate_limit_checks :: "nat \<Rightarrow> int \<Rightarrow> bool list \<times> int" where
  "rate_limit_checks 0 requestCounter = ([], requestCounter)"
| "rate_limit_checks (Suc n) requestCounter =
     (let (v, requestCounter') = rate_limit_check requestCounter;
          (vs, requestCounter'') = rate_limit_checks n requestCounter'
      in (v # vs, requestCounter''))"

section \<open>Query layer: pagination\<close>

record 'a paginated =
  data :: "'a list"
  total :: int
  page :: jsnum
  per_page :: jsnum
  total_pages :: jsnum

text \<open>
  \<^verbatim>\<open>Math.ceil(len / perPage)\<close> for an array length \<open>len\<close>. The quotient of a length and a
  nonzero integer is computed in floating point, which does not change its ceiling; a length
  divided by an infinity is zero.
\<close>

fun ceil_div :: "int \<Rightarrow> jsnum \<Rightarrow> jsnum" where
  "ceil_div len (Num perPage) =
     (if perPage = 0 then (if len = 0 then NaN else Infinity)
      else Num (- ((- len) div perPage)))"
| "ceil_div len NaN = NaN"
| "ceil_div len Infinity = Num 0"
| "ceil_div len NegInfinity = Num 0"

definition paginate :: "engine \<Rightarrow> 'a list \<Rightarrow> jsnum \<Rightarrow> jsnum \<Rightarrow> 'a paginated" where
  "paginate E array page' perPage =
     (let start = js_mul (js_sub page' (Num 1)) perPage;
          end' = js_add start perPage
      in \<lparr> data = js_slice array start end',
           total = int (length array),
           page = parseInt_num E page',
           per_page = perPage,
           total_pages = ceil_div (int (length array)) perPage \<rparr>)"

section \<open>The data model\<close>

text \<open>
  The four entities, with the fields of the object literals of the generators. A repo's
  \<^verbatim>\<open>owner_id\<close> is read from an array by index, so it is \<open>None\<close> (\<^verbatim>\<open>undefined\<close>) if the
  index is out of range.
\<close>

record user =
  u_id :: int
  u_username :: string
  u_email :: string
  u_name :: string
  u_created_at :: string
  u_role :: string
  u_deleted :: bool
  u_avatar_url :: string

record repo =
  r_id :: int
  r_name :: string
  r_owner_id :: "int option"
  r_description :: string
  r_created_at :: string
  r_stars :: int
  r_language :: string
  r_is_private :: bool
  r_default_branch :: string

record commit =
  c_id :: int
  c_repo_id :: int
  c_author_id :: int
  c_message :: string
  c_timestamp :: string
  c_sha :: string
  c_additions :: int
  c_deletions :: int

record fileinfo =
  f_id :: int
  f_repo_id :: int
  f_filename :: string
  f_size :: int
  f_download_url :: string
  f_content_type :: string
  f_last_modified :: string

record dataset =
  users :: "user list"
  repos :: "repo list"
  commits :: "commit list"
  files :: "fileinfo list"

section \<open>The random generator\<close>

text \<open>
  The generators draw from the third-party library \<^verbatim>\<open>@faker-js/faker\<close>, which is not part
  of the repository. It is a parameter of the model: a generator state of type \<open>'s\<close>, one
  function per library call that the code makes, each returning the drawn value and the next
  state, and \<open>seed\<close>, the state in which \<^verbatim>\<open>faker.seed(n)\<close> leaves the generator (a
  function of the number \<open>n\<close> alone: reseeding resets the stream). \<open>toLowerCase\<close> is the string method
  of JavaScript, applied to library output.
\<close>

record 's faker =
  seed :: "jsnum \<Rightarrow> 's"
  person_firstName :: "'s \<Rightarrow> string \<times> 's"
  person_lastName :: "'s \<Rightarrow> string \<times> 's"
  internet_username :: "string \<Rightarrow> string \<Rightarrow> 's \<Rightarrow> string \<times> 's"
  internet_email :: "string \<Rightarrow> string \<Rightarrow> 's \<Rightarrow> string \<times> 's"
  date_past :: "int \<Rightarrow> 's \<Rightarrow> string \<times> 's"
  date_recent :: "int \<Rightarrow> 's \<Rightarrow> string \<times> 's"
  helpers_arrayElement :: "string list \<Rightarrow> 's \<Rightarrow> string \<times> 's"
  lorem_sentence :: "'s \<Rightarrow> string \<times> 's"
  number_int :: "int \<Rightarrow> int \<Rightarrow> 's \<Rightarrow> int \<times> 's"
  datatype_boolean_p20 :: "'s \<Rightarrow> bool \<times> 's"
  git_commitMessage :: "'s \<Rightarrow> string \<times> 's"
  git_commitSha :: "'s \<Rightarrow> string \<times> 's"
  word_noun :: "'s \<Rightarrow> string \<times> 's"
  toLowerCase :: "string \<Rightarrow> string"

section \<open>Entity generators\<close>

definition generateUser :: "'s faker \<Rightarrow> int \<Rightarrow> bool \<Rightarrow> 's \<Rightarrow> user \<times> 's" where
  "generateUser F i deleted st =
     (let (firstName, s1) = person_firstName F st;
          (lastName, s2) = person_lastName F s1;
          (uname, s3) = internet_username F firstName lastName s2;
          username = toLowerCase F uname;
          (mail, s4) = internet_email F firstName lastName s3;
          (created, s5) = date_past F 3 s4;
          (role, s6) = helpers_arrayElement F [''admin'', ''member'', ''viewer'', ''contributor''] s5
      in (\<lparr> u_id = i,
             u_username = username,
             u_email = toLowerCase F mail,
             u_name = firstName @ '' '' @ lastName,
             u_created_at = created,
             u_role = role,
             u_deleted = deleted,
             u_avatar_url = ''https://avatars.example.com/'' @ username @ ''.png'' \<rparr>, s6))"

definition generateRepo :: "'s faker \<Rightarrow> int \<Rightarrow> int option \<Rightarrow> 's \<Rightarrow> repo \<times> 's" where
  "generateRepo F i ownerId st =
     (let techWords = [''api'', ''sdk'', ''cli'', ''lib'', ''core'', ''hub'', ''flow'', ''sync'',
                       ''data'', ''cloud''];
          suffixes = [''js'', ''go'', ''rs'', ''py'', ''service'', ''server'', ''client'', ''kit'',
                      ''tools'', ''utils''];
          (w, s1) = helpers_arrayElement F techWords st;
          (sfx, s2) = helpers_arrayElement F suffixes s1;
          name = w @ ''-'' @ sfx;
          (descr, s3) = lorem_sentence F s2;
          (created, s4) = date_past F 2 s3;
          (stars, s5) = number_int F 0 5000 s4;
          (lang, s6) = helpers_arrayElement F
             [''JavaScript'', ''TypeScript'', ''Python'', ''Go'', ''Rust'', ''Java'', ''Ruby''] s5;
          (priv, s7) = datatype_boolean_p20 F s6
      in (\<lparr> r_id = i,
             r_name = name @ ''-'' @ show_int i,
             r_owner_id = ownerId,
             r_description = descr,
             r_created_at = created,
             r_stars = stars,
             r_language = lang,
             r_is_private = priv,
             r_default_branch = ''main'' \<rparr>, s7))"

definition generateCommit :: "'s faker \<Rightarrow> int \<Rightarrow> int \<Rightarrow> int \<Rightarrow> 's \<Rightarrow> commit \<times> 's" where
  "generateCommit F i repoId authorId st =
     (let commitTypes = [''feat'', ''fix'', ''docs'', ''style'', ''refactor'', ''test'', ''chore'',
                         ''perf''];
          scopes = [''api'', ''ui'', ''core'', ''auth'', ''db'', ''config'', ''build'', ''deps''];
          (type, s1) = helpers_arrayElement F commitTypes st;
          (scope, s2) = helpers_arrayElement F scopes s1;
          (subject, s3) = git_commitMessage F s2;
          (stamp, s4) = date_recent F 365 s3;
          (sha, s5) = git_commitSha F s4;
          (adds, s6) = number_int F 1 500 s5;
          (dels, s7) = number_int F 0 200 s6
      in (\<lparr> c_id = i,
             c_repo_id = repoId,
             c_author_id = authorId,
             c_message = type @ ''('' @ scope @ ''): '' @ subject,
             c_timestamp = stamp,
             c_sha = sha,
             c_additions = adds,
             c_deletions = dels \<rparr>, s7))"

definition getContentType :: "string \<Rightarrow> string" where
  "getContentType ext =
     (case map_of [(''.js'', ''application/javascript''),
                   (''.ts'', ''application/typescript''),
                   (''.py'', ''text/x-python''),
                   (''.go'', ''text/x-go''),
                   (''.rs'', ''text/x-rust''),
                   (''.json'', ''application/json''),
                   (''.md'', ''text/markdown''),
                   (''.yml'', ''text/yaml'')] ext of
        Some t \<Rightarrow> t
      | None \<Rightarrow> ''text/plain'')"

definition generateFile :: "'s faker \<Rightarrow> int \<Rightarrow> int \<Rightarrow> 's \<Rightarrow> fileinfo \<times> 's" where
  "generateFile F i repoId st =
     (let extensions = [''.js'', ''.ts'', ''.py'', ''.go'', ''.rs'', ''.json'', ''.md'', ''.yml''];
          directories = [''src'', ''lib'', ''pkg'', ''internal'', ''cmd'', ''api'', ''utils'',
                         ''config''];
          (ext, s1) = helpers_arrayElement F extensions st;
          (dir, s2) = helpers_arrayElement F directories s1;
          (noun, s3) = word_noun F s2;
          filename = noun @ ext;
          (size, s4) = number_int F 100 10000 s3;
          (modified, s5) = date_recent F 30 s4
      in (\<lparr> f_id = i,
             f_repo_id = repoId,
             f_filename = dir @ ''/'' @ filename,
             f_size = size,
             f_download_url = ''/api/medium/files/'' @ show_int i @ ''/download'',
             f_content_type = getContentType ext,
             f_last_modified = modified \<rparr>, s5))"

section \<open>Dataset builder\<close>

text \<open>\<^verbatim>\<open>xs[k]\<close>: \<^verbatim>\<open>undefined\<close> outside the array.\<close>

definition array_get :: "'a list \<Rightarrow> int \<Rightarrow> 'a option" where
  "array_get xs k = (if 0 \<le> k \<and> k < int (length xs) then Some (xs ! nat k) else None)"

text \<open>Each \<^verbatim>\<open>for\<close> loop of \<^verbatim>\<open>generateAllData\<close> is a recursive function on its counter;
  the array being filled and the generator state are passed along.\<close>

function users_loop :: "'s faker \<Rightarrow> int \<Rightarrow> user list \<Rightarrow> 's \<Rightarrow> user list \<times> 's" where
  "users_loop F i us st =
     (if i \<le> 20 then
        (let (u, st') = generateUser F i (i = 18) st
         in users_loop F (i + 1) (us @ [u]) st')
      else (us, st))"
  by pat_completeness auto
termination
  by (relation "measure (\<lambda>(F, i, us, st). nat (21 - i))") auto

function repos_loop :: "'s faker \<Rightarrow> int list \<Rightarrow> int \<Rightarrow> repo list \<Rightarrow> 's \<Rightarrow> repo list \<times> 's" where
  "repos_loop F usersWithRepos i rs st =
     (if i \<le> 50 then
        (let ownerId =
               (if i \<le> 45 then array_get usersWithRepos (i mod int (length usersWithRepos))
                else if i \<le> 47 then Some 18
                else Some (20 + (i - 47)));
             (r, st') = generateRepo F i ownerId st
         in repos_loop F usersWithRepos (i + 1) (rs @ [r]) st')
      else (rs, st))"
  by pat_completeness auto
termination
  by (relation "measure (\<lambda>(F, uwr, i, rs, st). nat (51 - i))") auto

text \<open>The inner loop shares \<^verbatim>\<open>commitId\<close> with the outer one and also stops when
  \<^verbatim>\<open>commitId\<close> exceeds 200.\<close>

function commits_inner ::
  "'s faker \<Rightarrow> int \<Rightarrow> int \<Rightarrow> int \<Rightarrow> int \<Rightarrow> commit list \<Rightarrow> 's \<Rightarrow> int \<times> commit list \<times> 's" where
  "commits_inner F repoId numCommits j commitId cs st =
     (if j < numCommits \<and> commitId \<le> 200 then
        (let authorId = (if commitId mod 20 = 0 then 18 else commitId mod 17 + 1);
             (c, st') = generateCommit F commitId repoId authorId st
         in commits_inner F repoId numCommits (j + 1) (commitId + 1) (cs @ [c]) st')
      else (commitId, cs, st))"
  by pat_completeness auto
termination
  by (relation "measure (\<lambda>(F, repoId, numCommits, j, commitId, cs, st). nat (numCommits - j))") auto

function commits_loop ::
  "'s faker \<Rightarrow> int \<Rightarrow> int \<Rightarrow> commit list \<Rightarrow> 's \<Rightarrow> commit list \<times> 's" where
  "commits_loop F repoId commitId cs st =
     (if repoId \<le> 40 then
        (let numCommits = 3 + repoId mod 6;
             (commitId', cs', st') = commits_inner F repoId numCommits 0 commitId cs st
         in commits_loop F (repoId + 1) commitId' cs' st')
      else (cs, st))"
  by pat_completeness auto
termination
  by (relation "measure (\<lambda>(F, repoId, commitId, cs, st). nat (41 - repoId))") auto

function files_loop :: "'s faker \<Rightarrow> int \<Rightarrow> fileinfo list \<Rightarrow> 's \<Rightarrow> fileinfo list \<times> 's" where
  "files_loop F i fs st =
     (if i \<le> 30 then
        (let repoId = (i - 1) mod 25 + 1;
             (f, st') = generateFile F i repoId st
         in files_loop F (i + 1) (fs @ [f]) st')
      else (fs, st))"
  by pat_completeness auto
termination
  by (relation "measure (\<lambda>(F, i, fs, st). nat (31 - i))") auto

definition generateAllData :: "'s faker \<Rightarrow> 's \<Rightarrow> dataset \<times> 's" where
  "generateAllData F st =
     (let (us, s1) = users_loop F 1 [] st;
          usersWithRepos = map u_id (js_slice us (Num 0) (Num 15));
          (rs, s2) = repos_loop F usersWithRepos 1 [] s1;
          (cs, s3) = commits_loop F 1 1 [] s2;
          (fs, s4) = files_loop F 1 [] s3
      in (\<lparr> users = us, repos = rs, commits = cs, files = fs \<rparr>, s4))"

text \<open>Loading the module seeds the generator with 42 and builds the data once.\<close>

definition module_load :: "'s faker \<Rightarrow> dataset \<times> 's" where
  "module_load F = generateAllData F (seed F (Num 42))"

definition built :: "'s faker \<Rightarrow> dataset" where
  "built F = fst (module_load F)"

section \<open>File content\<close>

function content_loop :: "'s faker \<Rightarrow> int \<Rightarrow> string list \<Rightarrow> 's \<Rightarrow> string list \<times> 's" where
  "content_loop F i lines st =
     (if i < 50 then
        (let lines1 = (if i mod 10 = 0
                       then lines @ [CHR 0x0A # ''// Section '' @ show_int (i div 10 + 1)]
                       else lines);
             (sentence, st') = lorem_sentence F st
         in content_loop F (i + 1)
              (lines1 @ [''const value_'' @ show_int i @ '' = '' @ [CHR 0x22] @ sentence
                           @ [CHR 0x22] @ '';''])
              st')
      else (lines, st))"
  by pat_completeness auto
termination
  by (relation "measure (\<lambda>(F, i, lines, st). nat (50 - i))") auto


section \<open>Query layer: lookups\<close>

text \<open>Each helper applies \<^verbatim>\<open>parseInt\<close> to its argument, which is already a number, and
  compares with \<^verbatim>\<open>===\<close>, which is false of \<^verbatim>\<open>NaN\<close> for every record.\<close>

definition getUserById :: "engine \<Rightarrow> dataset \<Rightarrow> jsnum \<Rightarrow> user option" where
  "getUserById E d ident =
     (case parseInt_num E ident of
        Num i \<Rightarrow> find (\<lambda>u. u_id u = i) (users d)
      | _ \<Rightarrow> None)"

definition getReposByOwner :: "engine \<Rightarrow> dataset \<Rightarrow> jsnum \<Rightarrow> repo list" where
  "getReposByOwner E d ownerId =
     (case parseInt_num E ownerId of
        Num i \<Rightarrow> filter (\<lambda>r. r_owner_id r = Some i) (repos d)
      | _ \<Rightarrow> [])"

definition getRepoById :: "engine \<Rightarrow> dataset \<Rightarrow> jsnum \<Rightarrow> repo option" where
  "getRepoById E d ident =
     (case parseInt_num E ident of
        Num i \<Rightarrow> find (\<lambda>r. r_id r = i) (repos d)
      | _ \<Rightarrow> None)"

definition getCommitsByRepo :: "engine \<Rightarrow> dataset \<Rightarrow> jsnum \<Rightarrow> commit list" where
  "getCommitsByRepo E d repoId =
     (case parseInt_num E repoId of
        Num i \<Rightarrow> filter (\<lambda>c. c_repo_id c = i) (commits d)
      | _ \<Rightarrow> [])"


section \<open>Responses\<close>

text \<open>
  A handler's result: the status code (200 unless \<^verbatim>\<open>reply.code\<close> is called), the headers it
  sets, and the body, one constructor per shape of object or text that the handlers return
  (\<open>None\<close> is \<^verbatim>\<open>null\<close>). Console logging is not modelled.
\<close>

datatype payload =
    ErrorBody int string string
      \<comment> \<open>\<^verbatim>\<open>{statusCode, error, message}\<close>\<close>
  | RateLimitBody int string string int
      \<comment> \<open>\<^verbatim>\<open>{statusCode, error, message, retry_after}\<close>\<close>
  | ReposBody "repo list" int
      \<comment> \<open>\<^verbatim>\<open>{data, count}\<close>\<close>
  | UserReposBody "repo list" int jsnum "int list"
      \<comment> \<open>\<^verbatim>\<open>{data, count, user_id, _extraction_hint.values}\<close>\<close>
  | UserDetailBody user int int "(int \<times> string) list"
      \<comment> \<open>\<^verbatim>\<open>{...user, repo_count, commit_count, repos}\<close>\<close>
  | CommitDetailBody commit "(int \<times> string \<times> string) option" "(int \<times> string) option"
      \<comment> \<open>\<^verbatim>\<open>{...commit, author, repo}\<close>\<close>
  | CommitsPageBody "commit paginated" "jsnum option" bool "string option"
      \<comment> \<open>\<^verbatim>\<open>{...paginated, next_page, has_more, _warning}\<close>\<close>
  | HtmlBody string
  | TextBody string

record response =
  status :: int
  headers :: "(string \<times> string) list"
  body :: payload

definition htmlErrorPage :: "int \<Rightarrow> string \<Rightarrow> string" where
  "htmlErrorPage statusCode message = join_lines
     [''<!DOCTYPE html>'',
      ''<html>'',
      ''<head>'',
      ''  <title>Error '' @ show_int statusCode @ ''</title>'',
      ''  <style>'',
      ''    body { font-family: Arial, sans-serif; margin: 40px; }'',
      ''    h1 { color: #c00; }'',
      ''    .error-code { font-size: 72px; color: #999; }'',
      ''  </style>'',
      ''</head>'',
      ''<body>'',
      ''  <div class='' @ [CHR 0x22] @ ''error-code'' @ [CHR 0x22] @ ''>'' @ show_int statusCode
         @ ''</div>'',
      ''  <h1>Service Error</h1>'',
      ''  <p>'' @ message @ ''</p>'',
      ''  <p>Please try again later.</p>'',
      ''</body>'',
      ''</html>'']"

section \<open>Medium tier handlers\<close>



text \<open>\<^verbatim>\<open>GET /api/medium/commits/:commit_sha\<close>: the first commit, in the order of the
  collection, whose SHA is the parameter or starts with it.\<close>

definition sha_matches :: "string \<Rightarrow> commit \<Rightarrow> bool" where
  "sha_matches sha c = (c_sha c = sha \<or> prefix sha (c_sha c))"

definition find_commit :: "dataset \<Rightarrow> string \<Rightarrow> commit option" where
  "find_commit d sha = find (sha_matches sha) (commits d)"

definition medium_commit :: "engine \<Rightarrow> dataset \<Rightarrow> string \<Rightarrow> response" where
  "medium_commit E d sha =
     (case find_commit d sha of
        None \<Rightarrow>
          \<lparr> status = 404, headers = [],
            body = ErrorBody 404 ''Not Found'' (''Commit with sha '' @ sha @ '' not found'') \<rparr>
      | Some c \<Rightarrow>
          (let author = getUserById E d (Num (c_author_id c));
               repo = getRepoById E d (Num (c_repo_id c))
           in \<lparr> status = 200, headers = [],
                body = CommitDetailBody c
                         (map_option (\<lambda>a. (u_id a, u_name a, u_username a)) author)
                         (map_option (\<lambda>r. (r_id r, r_name r)) repo) \<rparr>))"



section \<open>Hard tier handlers\<close>

text \<open>
  \<^verbatim>\<open>GET /api/hard/users/:user_id/repos\<close>. The arguments are the engine, the dataset,
  \<^verbatim>\<open>Date.now()\<close> in milliseconds, \<^verbatim>\<open>parseInt(request.params.user_id)\<close> and the request
  counter; the result is the response and the new counter.
\<close>

definition hard_user_repos ::
  "engine \<Rightarrow> dataset \<Rightarrow> int \<Rightarrow> jsnum \<Rightarrow> int \<Rightarrow> response \<times> int" where
  "hard_user_repos E d now userId requestCounter =
     (let (reqCount, requestCounter') = getRequestCount requestCounter
      in if isRateLimited requestCounter' then
           (\<lparr> status = 429,
              headers = [(''Retry-After'', ''2''),
                         (''X-RateLimit-Limit'', ''100''),
                         (''X-RateLimit-Remaining'', ''0''),
                         (''X-RateLimit-Reset'', show_int (now div 1000 + 2))],
              body = RateLimitBody 429 ''Too Many Requests''
                       ''Rate limit exceeded. Please retry after the specified time.'' 2 \<rparr>,
            requestCounter')
         else
           (let user = getUserById E d userId
            in if (case user of Some u \<Rightarrow> u_deleted u | None \<Rightarrow> False) then
                 (\<lparr> status = 404, headers = [],
                    body = ErrorBody 404 ''Not Found''
                             (''User '' @ show_jsnum E userId @ '' has been deleted'') \<rparr>,
                  requestCounter')
               else if js_gt userId 15 then
                 (\<lparr> status = 403, headers = [],
                    body = ErrorBody 403 ''Forbidden''
                             (''You don'' @ [CHR 0x27] @ ''t have permission to access repos for user ''
                                @ show_jsnum E userId) \<rparr>,
                  requestCounter')
               else if user = None then
                 (\<lparr> status = 404, headers = [],
                    body = ErrorBody 404 ''Not Found''
                             (''User with id '' @ show_jsnum E userId @ '' not found'') \<rparr>,
                  requestCounter')
               else
                 (let userRepos = getReposByOwner E d userId
                  in (\<lparr> status = 200, headers = [],
                         body = ReposBody userRepos (int (length userRepos)) \<rparr>,
                      requestCounter'))))"

text \<open>
  \<^verbatim>\<open>GET /api/hard/repos/:repo_id/commits\<close>. The arguments are the engine, the dataset,
  \<^verbatim>\<open>parseInt(request.params.repo_id)\<close> and \<^verbatim>\<open>parseInt(request.query.page)\<close>; the handler's
  \<^verbatim>\<open>page\<close> is the latter, or 1 when that is \<^verbatim>\<open>NaN\<close> or 0.
\<close>

definition requested_page :: "jsnum \<Rightarrow> jsnum" where
  "requested_page pageParam = js_or_default pageParam (Num 1)"

definition hard_repo_commits :: "engine \<Rightarrow> dataset \<Rightarrow> jsnum \<Rightarrow> jsnum \<Rightarrow> response" where
  "hard_repo_commits E d repoId pageParam =
     (let page' = requested_page pageParam
      in if js_mod_is_zero repoId 7 then
           \<lparr> status = 503, headers = [],
             body = ErrorBody 503 ''Service Unavailable''
                      ''The commit service is temporarily unavailable'' \<rparr>
         else if repoId = Num 13 then
           \<lparr> status = 500, headers = [(''Content-Type'', ''text/html'')],
             body = HtmlBody (htmlErrorPage 500
                      ''An unexpected error occurred while fetching commits'') \<rparr>
         else
           (let repoCommits = getCommitsByRepo E d repoId
            in if repoId = Num 5 then
                 (let paginated = paginate E repoCommits page' (Num 5)
                  in \<lparr> status = 200, headers = [],
                       body = CommitsPageBody paginated (Some page') True
                                (Some ''This endpoint intentionally creates an infinite loop for testing'') \<rparr>)
               else
                 (let paginated = paginate E repoCommits page' (Num 10)
                  in \<lparr> status = 200, headers = [],
                       body = CommitsPageBody paginated
                                (if js_lt (page paginated) (total_pages paginated)
                                 then Some (js_add (page paginated) (Num 1)) else None)
                                (js_lt (page paginated) (total_pages paginated))
                                None \<rparr>)))"

text \<open>The \<^verbatim>\<open>next_page\<close> and \<^verbatim>\<open>has_more\<close> fields of a commits page.\<close>

fun next_page :: "payload \<Rightarrow> jsnum option" where
  "next_page (CommitsPageBody paginated np hm w) = np"
| "next_page other = None"

fun has_more :: "payload \<Rightarrow> bool" where
  "has_more (CommitsPageBody paginated np hm w) = hm"
| "has_more other = False"

section \<open>Concrete parameters\<close>

text \<open>
  Stand-ins for the library and the engine, used where a statement is instantiated. The
  generator state is a counter: every draw returns a value made from the counter and
  advances it, and reseeding sets the counter to the seed. The engine prints every integer
  with its decimal digits, as JavaScript prints \<^verbatim>\<open>1e21\<close> with first digit 1.
\<close>

definition demo_draw :: "int \<Rightarrow> string \<times> int" where
  "demo_draw n = (show_int n, n + 1)"

definition demo_faker :: "int faker" where
  "demo_faker =
     \<lparr> seed = (\<lambda>n. case n of Num i \<Rightarrow> i | _ \<Rightarrow> 0),
       person_firstName = demo_draw,
       person_lastName = demo_draw,
       internet_username = (\<lambda>a b. demo_draw),
       internet_email = (\<lambda>a b. demo_draw),
       date_past = (\<lambda>y. demo_draw),
       date_recent = (\<lambda>y. demo_draw),
       helpers_arrayElement = (\<lambda>xs n. (case xs of [] \<Rightarrow> [] | x # _ \<Rightarrow> x, n + 1)),
       lorem_sentence = demo_draw,
       number_int = (\<lambda>lo hi n. (lo, n + 1)),
       datatype_boolean_p20 = (\<lambda>n. (False, n + 1)),
       git_commitMessage = demo_draw,
       git_commitSha = demo_draw,
       word_noun = demo_draw,
       toLowerCase = (\<lambda>s. s) \<rparr>"

function leading_decimal :: "int \<Rightarrow> int" where
  "leading_decimal n = (if n < 10 then n else leading_decimal (n div 10))"
  by pat_completeness auto
termination
  by (relation "measure nat") auto

definition digit_of_int :: "int \<Rightarrow> digit" where
  "digit_of_int n =
     (if n = 2 then D2 else if n = 3 then D3 else if n = 4 then D4 else if n = 5 then D5
      else if n = 6 then D6 else if n = 7 then D7 else if n = 8 then D8
      else if n = 9 then D9 else D1)"

definition demo_engine :: engine where
  "demo_engine =
     \<lparr> number_to_string = show_int,
       first_digit = (\<lambda>i. digit_of_int (leading_decimal \<bar>i\<bar>)) \<rparr>"

text \<open>A two-commit dataset in which the second SHA starts with the first seven characters
  of the first.\<close>

definition two_commits :: dataset where
  "two_commits =
     \<lparr> users = [], repos = [],
       commits =
         [\<lparr> c_id = 1, c_repo_id = 1, c_author_id = 2, c_message = ''feat(api): a'',
            c_timestamp = ''t1'', c_sha = ''abcdef0123'', c_additions = 1, c_deletions = 0 \<rparr>,
          \<lparr> c_id = 2, c_repo_id = 1, c_author_id = 3, c_message = ''fix(ui): b'',
            c_timestamp = ''t2'', c_sha = ''abcdef0999'', c_additions = 2, c_deletions = 1 \<rparr>],
       files = [] \<rparr>"

section \<open>Numbers beyond every array\<close>


section \<open>The keys of the generated commits\<close>

text \<open>
  The id, repo and author of a commit do not depend on the random generator. The two
  functions below are the commit loops of \<^verbatim>\<open>generateAllData\<close> with the generator left out;
  they are shown to compute the keys of the generated commits and are then evaluated.
\<close>

definition commit_key :: "commit \<Rightarrow> int \<times> int \<times> int" where
  "commit_key c = (c_id c, c_repo_id c, c_author_id c)"

function commit_keys_inner ::
  "int \<Rightarrow> int \<Rightarrow> int \<Rightarrow> int \<Rightarrow> (int \<times> int \<times> int) list \<Rightarrow> int \<times> (int \<times> int \<times> int) list" where
  "commit_keys_inner repoId numCommits j commitId ks =
     (if j < numCommits \<and> commitId \<le> 200 then
        (let authorId = (if commitId mod 20 = 0 then 18 else commitId mod 17 + 1)
         in commit_keys_inner repoId numCommits (j + 1) (commitId + 1)
              (ks @ [(commitId, repoId, authorId)]))
      else (commitId, ks))"
  by pat_completeness auto
termination
  by (relation "measure (\<lambda>(repoId, numCommits, j, commitId, ks). nat (numCommits - j))") auto

function commit_keys_loop ::
  "int \<Rightarrow> int \<Rightarrow> (int \<times> int \<times> int) list \<Rightarrow> (int \<times> int \<times> int) list" where
  "commit_keys_loop repoId commitId ks =
     (if repoId \<le> 40 then
        (let numCommits = 3 + repoId mod 6;
             (commitId', ks') = commit_keys_inner repoId numCommits 0 commitId ks
         in commit_keys_loop (repoId + 1) commitId' ks')
      else ks)"
  by pat_completeness auto
termination
  by (relation "measure (\<lambda>(repoId, commitId, ks). nat (41 - repoId))") auto

declare users_loop.simps [simp del] repos_loop.simps [simp del] commits_inner.simps [simp del]
  commits_loop.simps [simp del] files_loop.simps [simp del] content_loop.simps [simp del]
  commit_keys_inner.simps [simp del] commit_keys_loop.simps [simp del]
  show_digits.simps [simp del] bitlen.simps [simp del] leading_decimal.simps [simp del]

section \<open>Rate-limit periodicity\<close>

lemma rate_limit_checks_closed:
  "rate_limit_checks n c = (map (\<lambda>k. (c + 1 + int k) mod 5 = 0) [0..<n], c + int n)"
proof (induction n arbitrary: c)
  case 0
  show ?case by simp
next
  case (Suc n)
  have split: "[0..<Suc n] = 0 # map Suc [0..<n]"
    by (simp add: upt_conv_Cons map_Suc_upt del: upt_Suc)
  show ?case
    unfolding split
    by (simp add: Suc rate_limit_check_def getRequestCount_def isRateLimited_def
                  comp_def ac_simps del: upt_Suc)
qed

text \<open>
  Claim C5. From a counter that is 0, freshly initialised or reset, fifteen rate-limit checks
  in a row (increment, then test divisibility by 5) fire exactly on the 5th, 10th and 15th
  call: the verdicts in call order are the list below, the run after a reset equals the run
  after initialisation, and the calls that fire are 5, 10 and 15.
\<close>

theorem rate_limit_periodicity:
  "fst (rate_limit_checks 15 initial_requestCounter)
     = [False, False, False, False, True,
        False, False, False, False, True,
        False, False, False, False, True]
   \<and> fst (rate_limit_checks 15 (resetRequestCounter c))
     = fst (rate_limit_checks 15 initial_requestCounter)
   \<and> [k \<leftarrow> [1..<16]. fst (rate_limit_checks 15 initial_requestCounter) ! (k - 1)]
     = [5, 10, 15]"
  by (simp add: rate_limit_checks_closed initial_requestCounter_def resetRequestCounter_def
                upt_rec numeral_eq_Suc)

section \<open>Rounding to a double\<close>



lemma fl_exact: "\<bar>x\<bar> < 2 ^ 53 \<Longrightarrow> fl x = Num x"
proof -
  assume a: "\<bar>x\<bar> < 2 ^ 53"
  then have r: "round_to_double \<bar>x\<bar> = \<bar>x\<bar>" by (simp add: round_to_double_def)
  have "(2::int) ^ 53 < 2 ^ 1024" by simp
  with a have "\<not> 2 ^ 1024 \<le> \<bar>x\<bar>" by linarith
  then show ?thesis by (simp add: fl_def r Let_def)
qed






lemma ceil_div_pos:
  assumes "1 \<le> n" "0 \<le> l"
  shows "\<exists>t. ceil_div l (Num n) = Num t \<and> (t - 1) * n < l \<and> l \<le> t * n \<and> t = (l + n - 1) div n"
proof -
  define t where "t = - ((- l) div n)"
  have n0: "0 < n" using assms by simp
  have eq: "- l = n * ((- l) div n) + (- l) mod n" by simp
  have m0: "0 \<le> (- l) mod n" and m1: "(- l) mod n < n" using n0 by simp_all
  have "l = - (n * ((- l) div n)) - (- l) mod n"
    using eq by linarith
  then have eq': "l = t * n - (- l) mod n"
    by (simp add: t_def mult.commute)
  have up: "l \<le> t * n" using eq' m0 by linarith
  have lo: "(t - 1) * n < l" using eq' m1 by (simp add: algebra_simps)
  have "(l + n - 1) div n = t"
  proof (rule int_div_pos_eq)
    show "l + n - 1 = n * t + (l + n - 1 - t * n)" by (simp add: algebra_simps)
    show "0 \<le> l + n - 1 - t * n" using lo by (simp add: algebra_simps)
    show "l + n - 1 - t * n < n" using up by simp
  qed
  moreover have "ceil_div l (Num n) = Num t"
    using n0 by (simp add: t_def)
  ultimately show ?thesis using up lo by blast
qed






section \<open>The built dataset\<close>

lemma generateUser_key:
  "u_id (fst (generateUser F i del st)) = i" "u_deleted (fst (generateUser F i del st)) = del"
  by (simp_all add: generateUser_def Let_def split: prod.split)

lemma generateRepo_key: "r_id (fst (generateRepo F i owner st)) = i"
  by (simp add: generateRepo_def Let_def split: prod.split)

lemma generateFile_key: "f_id (fst (generateFile F i r st)) = i"
  by (simp add: generateFile_def Let_def split: prod.split)

lemma generateCommit_key:
  "commit_key (fst (generateCommit F i r a st)) = (i, r, a)"
  by (simp add: generateCommit_def commit_key_def Let_def split: prod.split)

lemma users_loop_keys:
  "map (\<lambda>u. (u_id u, u_deleted u)) (fst (users_loop F i us st))
     = map (\<lambda>u. (u_id u, u_deleted u)) us @ map (\<lambda>k. (k, k = 18)) [i..20]"
proof (induction F i us st rule: users_loop.induct)
  case (1 F i us st)
  show ?case
  proof (cases "i \<le> 20")
    case True
    obtain u st' where g: "generateUser F i (i = 18) st = (u, st')" by fastforce
    have k: "u_id u = i" "u_deleted u = (i = 18)"
      using generateUser_key [of F i "i = 18" st] g by simp_all
    have "map (\<lambda>u. (u_id u, u_deleted u)) (fst (users_loop F (i + 1) (us @ [u]) st'))
       = map (\<lambda>u. (u_id u, u_deleted u)) (us @ [u]) @ map (\<lambda>k. (k, k = 18)) [i + 1..20]"
      using "1" [OF True g [symmetric] refl] .
    then show ?thesis
      using True g k by (subst users_loop.simps) (simp add: upto_rec1 [of i 20])
  next
    case False
    then show ?thesis by (subst users_loop.simps) simp
  qed
qed

lemma repos_loop_ids:
  "map r_id (fst (repos_loop F uwr i rs st)) = map r_id rs @ [i..50]"
proof (induction F uwr i rs st rule: repos_loop.induct)
  case (1 F uwr i rs st)
  show ?case
  proof (cases "i \<le> 50")
    case True
    define owner where "owner = (if i \<le> 45 then array_get uwr (i mod int (length uwr))
                else if i \<le> 47 then Some 18 else Some (20 + (i - 47)))"
    obtain r st' where g: "generateRepo F i owner st = (r, st')" by fastforce
    have k: "r_id r = i" using generateRepo_key [of F i owner st] g by simp
    have "map r_id (fst (repos_loop F uwr (i + 1) (rs @ [r]) st')) = map r_id (rs @ [r]) @ [i + 1..50]"
      using "1" [OF True owner_def g [symmetric] refl] .
    then show ?thesis
      using True g k
      by (subst repos_loop.simps) (simp add: upto_rec1 [of i 50] owner_def [symmetric] Let_def)
  next
    case False
    then show ?thesis by (subst repos_loop.simps) simp
  qed
qed

lemma files_loop_ids:
  "map f_id (fst (files_loop F i fs st)) = map f_id fs @ [i..30]"
proof (induction F i fs st rule: files_loop.induct)
  case (1 F i fs st)
  show ?case
  proof (cases "i \<le> 30")
    case True
    obtain f st' where g: "generateFile F i ((i - 1) mod 25 + 1) st = (f, st')" by fastforce
    have k: "f_id f = i" using generateFile_key [of F i "(i - 1) mod 25 + 1" st] g by simp
    have "map f_id (fst (files_loop F (i + 1) (fs @ [f]) st')) = map f_id (fs @ [f]) @ [i + 1..30]"
      using "1" [OF True refl g [symmetric] refl] .
    then show ?thesis
      using True g k by (subst files_loop.simps) (simp add: upto_rec1 [of i 30] Let_def)
  next
    case False
    then show ?thesis by (subst files_loop.simps) simp
  qed
qed

lemma commits_inner_keys:
  "(case commits_inner F r n j cid cs st of (cid', cs', st') \<Rightarrow> (cid', map commit_key cs'))
     = commit_keys_inner r n j cid (map commit_key cs)"
proof (induction F r n j cid cs st rule: commits_inner.induct)
  case (1 F r n j cid cs st)
  show ?case
  proof (cases "j < n \<and> cid \<le> 200")
    case True
    define a where "a = (if cid mod 20 = 0 then 18 else cid mod 17 + 1)"
    obtain c st' where g: "generateCommit F cid r a st = (c, st')" by fastforce
    have k: "commit_key c = (cid, r, a)"
      using generateCommit_key [of F cid r a st] g by simp
    have ih: "(case commits_inner F r n (j + 1) (cid + 1) (cs @ [c]) st' of
                 (cid', cs', st') \<Rightarrow> (cid', map commit_key cs'))
              = commit_keys_inner r n (j + 1) (cid + 1) (map commit_key (cs @ [c]))"
      using "1" [OF True a_def g [symmetric] refl] .
    show ?thesis
      apply (subst commits_inner.simps)
      apply (subst commit_keys_inner.simps)
      using True g k ih by (simp add: a_def [symmetric] Let_def)
  next
    case False
    then show ?thesis
      by (subst commits_inner.simps, subst commit_keys_inner.simps) auto
  qed
qed

lemma commits_loop_keys:
  "map commit_key (fst (commits_loop F r cid cs st)) = commit_keys_loop r cid (map commit_key cs)"
proof (induction F r cid cs st rule: commits_loop.induct)
  case (1 F r cid cs st)
  show ?case
  proof (cases "r \<le> 40")
    case True
    obtain cid' cs' st' where g: "commits_inner F r (3 + r mod 6) 0 cid cs st = (cid', cs', st')"
      by (metis prod_cases3)
    have k: "commit_keys_inner r (3 + r mod 6) 0 cid (map commit_key cs) = (cid', map commit_key cs')"
      using commits_inner_keys [of F r "3 + r mod 6" 0 cid cs st] g by simp
    have ih: "map commit_key (fst (commits_loop F (r + 1) cid' cs' st'))
              = commit_keys_loop (r + 1) cid' (map commit_key cs')"
      using "1" [OF True refl g [symmetric] refl refl] .
    show ?thesis
      apply (subst commits_loop.simps)
      apply (subst commit_keys_loop.simps)
      using True g k ih by (simp add: Let_def)
  next
    case False
    then show ?thesis
      by (subst commits_loop.simps, subst commit_keys_loop.simps) auto
  qed
qed

lemma built_users_keys:
  "map (\<lambda>u. (u_id u, u_deleted u)) (users (built F)) = map (\<lambda>k. (k, k = 18)) [1..20]"
  using users_loop_keys [of F 1 "[]" "seed F (Num 42)"]
  by (simp add: built_def module_load_def generateAllData_def Let_def split_beta)

lemma built_repos_ids: "map r_id (repos (built F)) = [1..50]"
  using repos_loop_ids [of F _ 1 "[]"]
  by (simp add: built_def module_load_def generateAllData_def Let_def split_beta)

lemma built_files_ids: "map f_id (files (built F)) = [1..30]"
  using files_loop_ids [of F 1 "[]"]
  by (simp add: built_def module_load_def generateAllData_def Let_def split_beta)

lemma built_commits_keys: "map commit_key (commits (built F)) = commit_keys_loop 1 1 []"
  using commits_loop_keys [of F 1 1 "[]"]
  by (simp add: built_def module_load_def generateAllData_def Let_def split_beta)

lemma keys_eval_ids: "map fst (commit_keys_loop 1 1 []) = [1..200]"
  by code_simp

lemma keys_eval_counts:
  "map (\<lambda>r. int (length (filter (\<lambda>k. fst (snd k) = r) (commit_keys_loop 1 1 [])))) [1..50]
     = map (\<lambda>r. 3 + r mod 6) [1..36] @ [2] @ replicate 13 0"
  by code_simp

lemma keys_eval_38: "length (filter (\<lambda>k. fst (snd k) = 38) (commit_keys_loop 1 1 [])) = 0"
  by code_simp

lemma built_users_ids: "map u_id (users (built F)) = [1..20]"
proof -
  have "map u_id (users (built F)) = map fst (map (\<lambda>u. (u_id u, u_deleted u)) (users (built F)))"
    by (simp add: comp_def)
  also have "\<dots> = [1..20]"
    unfolding built_users_keys by (simp add: comp_def)
  finally show ?thesis .
qed

lemma built_commits_ids: "map c_id (commits (built F)) = [1..200]"
proof -
  have "map c_id (commits (built F)) = map fst (map commit_key (commits (built F)))"
    by (simp add: comp_def commit_key_def)
  then show ?thesis
    by (simp only: built_commits_keys keys_eval_ids)
qed

lemma built_commit_count:
  assumes "\<bar>r\<bar> < 10 ^ 21"
  shows "length (getCommitsByRepo E (built F) (Num r))
           = length (filter (\<lambda>k. fst (snd k) = r) (commit_keys_loop 1 1 []))"
proof -
  have "length (filter (\<lambda>k. fst (snd k) = r) (map commit_key (commits (built F))))
      = length (filter (\<lambda>c. c_repo_id c = r) (commits (built F)))"
    by (simp add: filter_map comp_def commit_key_def)
  then show ?thesis
    using assms by (simp add: built_commits_keys getCommitsByRepo_def)
qed

text \<open>
  Claim C1. The dataset built when the module loads has exactly 20 users with ids 1 to 20, 50
  repos with ids 1 to 50, 200 commits with ids 1 to 200 in this order, and 30 files with ids 1
  to 30, whatever the random generator draws. The per-repo formula \<open>3 + repoId mod 6\<close> sums
  to 220 over the repos 1 to 40; the bound on \<^verbatim>\<open>commitId\<close> stops the commits at 200.
\<close>

theorem dataset_cardinalities:
  "map u_id (users (built F)) = [1..20] \<and> length (users (built F)) = 20
   \<and> map r_id (repos (built F)) = [1..50] \<and> length (repos (built F)) = 50
   \<and> map c_id (commits (built F)) = [1..200] \<and> length (commits (built F)) = 200
   \<and> map f_id (files (built F)) = [1..30] \<and> length (files (built F)) = 30
   \<and> (\<Sum>repoId \<leftarrow> [1..40]. 3 + repoId mod 6) = (220 :: int)"
proof -
  have u: "length (users (built F)) = 20"
    using arg_cong [OF built_users_ids [of F], of length] by simp
  have r: "length (repos (built F)) = 50"
    using arg_cong [OF built_repos_ids [of F], of length] by simp
  have c: "length (commits (built F)) = 200"
    using arg_cong [OF built_commits_ids [of F], of length] by simp
  have f: "length (files (built F)) = 30"
    using arg_cong [OF built_files_ids [of F], of length] by simp
  have s: "(\<Sum>repoId \<leftarrow> [1..40]. 3 + repoId mod 6) = (220 :: int)" by code_simp
  show ?thesis
    by (intro conjI) (fact built_users_ids built_repos_ids built_commits_ids built_files_ids u r c f s)+
qed

text \<open>
  Claim C2, as amended. In the built dataset the number of commits of repo \<open>r\<close>, for \<open>r\<close>
  from 1 to 50 in this order, is \<open>3 + r mod 6\<close> for the repos 1 to 36 (between 3 and 8), 2
  for repo 37, where the bound of 200 commits cuts the loop, and 0 for the repos 38 to 50.
\<close>

theorem commits_per_repo:
  "map (\<lambda>r. int (length (getCommitsByRepo E (built F) (Num r)))) [1..50]
     = map (\<lambda>r. 3 + r mod 6) [1..36] @ [2] @ replicate 13 0"
proof -
  have "map (\<lambda>r. int (length (getCommitsByRepo E (built F) (Num r)))) [1..50]
      = map (\<lambda>r. int (length (filter (\<lambda>k. fst (snd k) = r) (commit_keys_loop 1 1 [])))) [1..50]"
  proof (rule map_cong [OF refl])
    fix r :: int
    assume "r \<in> set [1..50]"
    then have "\<bar>r\<bar> < 10 ^ 21" by simp
    then show "int (length (getCommitsByRepo E (built F) (Num r)))
             = int (length (filter (\<lambda>k. fst (snd k) = r) (commit_keys_loop 1 1 [])))"
      by (simp only: built_commit_count)
  qed
  then show ?thesis by (simp only: keys_eval_counts)
qed

text \<open>
  The claim as stated, that each of the repos 1 to 40 has between 3 and 8 commits, fails at
  repo 38, which has none.
\<close>

theorem commits_per_repo_counterexample:
  "\<not> (3 \<le> length (getCommitsByRepo demo_engine (built demo_faker) (Num 38))
       \<and> length (getCommitsByRepo demo_engine (built demo_faker) (Num 38)) \<le> 8)"
proof -
  have "length (getCommitsByRepo demo_engine (built demo_faker) (Num 38)) = 0"
    using built_commit_count [of 38 demo_engine demo_faker] by (simp add: keys_eval_38)
  then show ?thesis by simp
qed

section \<open>Looking up users of the built dataset\<close>

lemma digit_value_range: "1 \<le> digit_value g \<and> digit_value g \<le> 9"
  by (cases g) simp_all

lemma parseInt_num_Num:
  obtains m where "parseInt_num E (Num n) = Num m"
    and "(\<bar>n\<bar> < 10 ^ 21 \<and> m = n) \<or> (10 ^ 21 \<le> n \<and> 1 \<le> m \<and> m \<le> 9)
         \<or> (n \<le> - (10 ^ 21) \<and> - 9 \<le> m \<and> m \<le> - 1)"
proof (cases "\<bar>n\<bar> < 10 ^ 21")
  case True
  then show ?thesis using that [of n] by simp
next
  case False
  show ?thesis
  proof (cases "n < 0")
    case True
    with False have "n \<le> - (10 ^ 21)" by simp
    then show ?thesis
      using that [of "- digit_value (first_digit E n)"] False True
        digit_value_range [of "first_digit E n"] by simp
  next
    case False
    with \<open>\<not> \<bar>n\<bar> < 10 ^ 21\<close> have "10 ^ 21 \<le> n" by simp
    then show ?thesis
      using that [of "digit_value (first_digit E n)"] False \<open>\<not> \<bar>n\<bar> < 10 ^ 21\<close>
        digit_value_range [of "first_digit E n"] by simp
  qed
qed

lemma find_user_built_None:
  "find (\<lambda>u. u_id u = m) (users (built F)) = None \<longleftrightarrow> (m < 1 \<or> 20 < m)"
proof -
  have "find (\<lambda>u. u_id u = m) (users (built F)) = None
          \<longleftrightarrow> m \<notin> set (map u_id (users (built F)))"
    by (auto simp add: find_None_iff)
  also have "\<dots> \<longleftrightarrow> (m < 1 \<or> 20 < m)"
    unfolding built_users_ids by auto
  finally show ?thesis .
qed

lemma find_user_built_Some:
  assumes "find (\<lambda>u. u_id u = m) (users (built F)) = Some u"
  shows "u_id u = m \<and> u_deleted u = (m = 18)"
proof -
  from assms have "u \<in> set (users (built F))" and id: "u_id u = m"
    by (auto simp add: find_Some_iff)
  then have "(u_id u, u_deleted u) \<in> set (map (\<lambda>u. (u_id u, u_deleted u)) (users (built F)))"
    by force
  then have "u_deleted u = (u_id u = 18)"
    unfolding built_users_keys by auto
  with id show ?thesis by simp
qed

lemma getUserById_built_None:
  "getUserById E (built F) (Num n) = None \<longleftrightarrow> (n < 1 \<or> (20 < n \<and> n < 10 ^ 21))"
proof -
  obtain m where m: "parseInt_num E (Num n) = Num m"
    and c: "(\<bar>n\<bar> < 10 ^ 21 \<and> m = n) \<or> (10 ^ 21 \<le> n \<and> 1 \<le> m \<and> m \<le> 9)
         \<or> (n \<le> - (10 ^ 21) \<and> - 9 \<le> m \<and> m \<le> - 1)"
    by (rule parseInt_num_Num)
  have "getUserById E (built F) (Num n) = None \<longleftrightarrow> (m < 1 \<or> 20 < m)"
    by (simp add: getUserById_def m find_user_built_None del: parseInt_num.simps)
  also have "\<dots> \<longleftrightarrow> (n < 1 \<or> (20 < n \<and> n < 10 ^ 21))"
    using c by auto
  finally show ?thesis .
qed

lemma getUserById_built_deleted:
  "(case getUserById E (built F) (Num n) of Some u \<Rightarrow> u_deleted u | None \<Rightarrow> False) = (n = 18)"
proof -
  obtain m where m: "parseInt_num E (Num n) = Num m"
    and c: "(\<bar>n\<bar> < 10 ^ 21 \<and> m = n) \<or> (10 ^ 21 \<le> n \<and> 1 \<le> m \<and> m \<le> 9)
         \<or> (n \<le> - (10 ^ 21) \<and> - 9 \<le> m \<and> m \<le> - 1)"
    by (rule parseInt_num_Num)
  have g: "getUserById E (built F) (Num n) = find (\<lambda>u. u_id u = m) (users (built F))"
    by (simp add: getUserById_def m del: parseInt_num.simps)
  have mn: "(m = 18) = (n = 18)" using c by auto
  show ?thesis
  proof (cases "find (\<lambda>u. u_id u = m) (users (built F))")
    case None
    then show ?thesis using find_user_built_None [of m F] mn by (auto simp add: g)
  next
    case (Some u)
    then show ?thesis using find_user_built_Some [OF Some] mn by (simp add: g)
  qed
qed

lemma getUserById_not_number:
  "getUserById E d NaN = None" "getUserById E d Infinity = None"
  "getUserById E d NegInfinity = None"
  by (simp_all add: getUserById_def)

lemma hard_user_repos_status:
  assumes "(requestCounter + 1) mod 5 \<noteq> 0"
  shows "status (fst (hard_user_repos E (built F) now (Num n) requestCounter))
           = (if n = 18 then 404 else if 15 < n then 403 else if n < 1 then 404 else 200)"
proof -
  have del: "(case getUserById E (built F) (Num n) of Some u \<Rightarrow> u_deleted u | None \<Rightarrow> False)
               = (n = 18)"
    by (rule getUserById_built_deleted)
  have none: "getUserById E (built F) (Num n) = None \<longleftrightarrow> (n < 1 \<or> (20 < n \<and> n < 10 ^ 21))"
    by (rule getUserById_built_None)
  show ?thesis
    using assms
    by (simp add: hard_user_repos_def getRequestCount_def isRateLimited_def Let_def del none
                  js_gt_def)
qed

lemma built_user_member: "n \<in> u_id ` set (users (built F)) \<longleftrightarrow> 1 \<le> n \<and> n \<le> 20"
proof -
  have "u_id ` set (users (built F)) = set (map u_id (users (built F)))" by simp
  also have "\<dots> = {1..20}" unfolding built_users_ids by simp
  finally show ?thesis by simp
qed

text \<open>
  Claim C3, as amended. On a call of the hard-tier user-repos operation on which the rate
  limit does not fire, the status is 404 for the deleted user 18, 403 for every other id
  greater than 15, whether the user exists (16, 17, 19, 20) or not (21 and above), 404 for
  every id below 1, and 200 otherwise. So an id that is not in the collection gets 404 only
  when it is below 1 and gets 403 when it is above 20.
\<close>

theorem hard_user_repos_not_found:
  assumes "(requestCounter + 1) mod 5 \<noteq> 0"
  shows "status (fst (hard_user_repos E (built F) now (Num n) requestCounter))
           = (if n = 18 then 404 else if 15 < n then 403 else if n < 1 then 404 else 200)
       \<and> (n \<notin> u_id ` set (users (built F)) \<longleftrightarrow> n < 1 \<or> 20 < n)
       \<and> status (fst (hard_user_repos E (built F) now NaN requestCounter)) = 404
       \<and> status (fst (hard_user_repos E (built F) now Infinity requestCounter)) = 403
       \<and> status (fst (hard_user_repos E (built F) now NegInfinity requestCounter)) = 404"
proof -
  have m: "n \<notin> u_id ` set (users (built F)) \<longleftrightarrow> n < 1 \<or> 20 < n"
    unfolding built_user_member by auto
  have o: "status (fst (hard_user_repos E (built F) now NaN requestCounter)) = 404"
    "status (fst (hard_user_repos E (built F) now Infinity requestCounter)) = 403"
    "status (fst (hard_user_repos E (built F) now NegInfinity requestCounter)) = 404"
    using assms
    by (simp_all add: hard_user_repos_def getRequestCount_def isRateLimited_def Let_def
                      getUserById_not_number js_gt_def)
  show ?thesis
    using hard_user_repos_status [OF assms, of E F now n] m o by (intro conjI)
qed

theorem hard_user_repos_not_found_witness:
  "status (fst (hard_user_repos demo_engine (built demo_faker) 0 (Num 21) 0)) = 403
   \<and> status (fst (hard_user_repos demo_engine (built demo_faker) 0 (Num 0) 0)) = 404
   \<and> status (fst (hard_user_repos demo_engine (built demo_faker) 0 (Num 18) 0)) = 404
   \<and> status (fst (hard_user_repos demo_engine (built demo_faker) 0 (Num 16) 0)) = 403
   \<and> status (fst (hard_user_repos demo_engine (built demo_faker) 0 (Num 3) 0)) = 200"
  using hard_user_repos_not_found [of 0 demo_engine demo_faker 0 21]
        hard_user_repos_not_found [of 0 demo_engine demo_faker 0 0]
        hard_user_repos_not_found [of 0 demo_engine demo_faker 0 18]
        hard_user_repos_not_found [of 0 demo_engine demo_faker 0 16]
        hard_user_repos_not_found [of 0 demo_engine demo_faker 0 3]
  by simp

text \<open>
  The claim as stated fails at id 21: no user has this id, the rate limit does not fire on
  the first call, and the status is 403, not 404.
\<close>

theorem hard_user_repos_not_found_counterexample:
  "getUserById demo_engine (built demo_faker) (Num 21) = None
   \<and> \<not> isRateLimited (snd (getRequestCount initial_requestCounter))
   \<and> status (fst (hard_user_repos demo_engine (built demo_faker) 0 (Num 21)
                     initial_requestCounter)) = 403"
  using hard_user_repos_status [of 0 demo_engine demo_faker 0 21]
        getUserById_built_None [of demo_engine demo_faker 21]
  by (simp add: initial_requestCounter_def getRequestCount_def isRateLimited_def)

text \<open>
  Claim C10. In the hard-tier user-repos operation the rate-limit check comes first: whenever
  the counter after the increment is divisible by 5, the response is the 429 one, with the
  \<^verbatim>\<open>Retry-After: 2\<close> header and \<^verbatim>\<open>retry_after: 2\<close> in the body, for every dataset and every
  user id (existing, deleted, above 15, absent, or not a number), and the counter is
  incremented.
\<close>

theorem hard_user_repos_rate_limit_first:
  assumes "(requestCounter + 1) mod 5 = 0"
  shows "hard_user_repos E d now userId requestCounter =
           (\<lparr> status = 429,
              headers = [(''Retry-After'', ''2''),
                         (''X-RateLimit-Limit'', ''100''),
                         (''X-RateLimit-Remaining'', ''0''),
                         (''X-RateLimit-Reset'', show_int (now div 1000 + 2))],
              body = RateLimitBody 429 ''Too Many Requests''
                       ''Rate limit exceeded. Please retry after the specified time.'' 2 \<rparr>,
            requestCounter + 1)"
  using assms
  by (simp add: hard_user_repos_def getRequestCount_def isRateLimited_def)

theorem hard_user_repos_rate_limit_first_witness:
  "status (fst (hard_user_repos demo_engine (built demo_faker) 0 (Num 18) 4)) = 429
   \<and> status (fst (hard_user_repos demo_engine (built demo_faker) 0 (Num 21) 9)) = 429
   \<and> status (fst (hard_user_repos demo_engine (built demo_faker) 0 (Num 16) 14)) = 429
   \<and> status (fst (hard_user_repos demo_engine (built demo_faker) 0 (Num 1) 19)) = 429
   \<and> status (fst (hard_user_repos demo_engine (built demo_faker) 0 NaN 24)) = 429"
  using hard_user_repos_rate_limit_first [of 4 demo_engine "built demo_faker" 0 "Num 18"]
        hard_user_repos_rate_limit_first [of 9 demo_engine "built demo_faker" 0 "Num 21"]
        hard_user_repos_rate_limit_first [of 14 demo_engine "built demo_faker" 0 "Num 16"]
        hard_user_repos_rate_limit_first [of 19 demo_engine "built demo_faker" 0 "Num 1"]
        hard_user_repos_rate_limit_first [of 24 demo_engine "built demo_faker" 0 NaN]
  by simp






section \<open>Commit lookup by SHA\<close>

lemma find_first_of_filter:
  "find P xs = (case filter P xs of [] \<Rightarrow> None | x # _ \<Rightarrow> Some x)"
  by (induction xs) simp_all

lemma sha_matches_prefix: "sha_matches q c = prefix q (c_sha c)"
  by (auto simp add: sha_matches_def)

text \<open>
  Claim C7. The commit lookup returns the first commit, in the order of the collection, whose
  SHA is the query or starts with it, and answers 404 when there is none. For every commit
  of the collection, the query made of the first seven characters of its SHA finds a commit:
  the one at the least index whose SHA starts with these characters, which is the commit
  itself unless an earlier commit shares the prefix. Nothing checks that the prefix is
  unique. In the built dataset the collection is in ascending order of id.
\<close>

theorem commit_lookup_first_match:
  "find_commit d q = (case filter (\<lambda>c. c_sha c = q \<or> prefix q (c_sha c)) (commits d) of
                        [] \<Rightarrow> None | c # _ \<Rightarrow> Some c)
   \<and> (\<forall>i < length (commits d). \<exists>k \<le> i.
         find_commit d (take 7 (c_sha (commits d ! i))) = Some (commits d ! k)
         \<and> prefix (take 7 (c_sha (commits d ! i))) (c_sha (commits d ! k))
         \<and> (\<forall>j < k. \<not> prefix (take 7 (c_sha (commits d ! i))) (c_sha (commits d ! j))))
   \<and> (case find_commit d q of
         None \<Rightarrow> status (medium_commit E d q) = 404
       | Some c \<Rightarrow> status (medium_commit E d q) = 200
                  \<and> body (medium_commit E d q) =
                      CommitDetailBody c
                        (map_option (\<lambda>a. (u_id a, u_name a, u_username a))
                           (getUserById E d (Num (c_author_id c))))
                        (map_option (\<lambda>r. (r_id r, r_name r))
                           (getRepoById E d (Num (c_repo_id c)))))
   \<and> map c_id (commits (built F)) = [1..200]"
proof -
  have a: "find_commit d q = (case filter (\<lambda>c. c_sha c = q \<or> prefix q (c_sha c)) (commits d) of
                        [] \<Rightarrow> None | c # _ \<Rightarrow> Some c)"
    unfolding find_commit_def sha_matches_def [abs_def] by (rule find_first_of_filter)
  have b: "\<exists>k \<le> i.
         find_commit d (take 7 (c_sha (commits d ! i))) = Some (commits d ! k)
         \<and> prefix (take 7 (c_sha (commits d ! i))) (c_sha (commits d ! k))
         \<and> (\<forall>j < k. \<not> prefix (take 7 (c_sha (commits d ! i))) (c_sha (commits d ! j)))"
    if i: "i < length (commits d)" for i
  proof -
    define p where "p = take 7 (c_sha (commits d ! i))"
    have own: "sha_matches p (commits d ! i)"
      by (simp add: sha_matches_prefix p_def take_is_prefix)
    moreover have "commits d ! i \<in> set (commits d)"
      using i by (rule nth_mem)
    ultimately have "\<exists>x. x \<in> set (commits d) \<and> sha_matches p x"
      by blast
    then have "find (sha_matches p) (commits d) \<noteq> None"
      by (simp add: find_None_iff)
    then obtain c where c: "find (sha_matches p) (commits d) = Some c" by auto
    then obtain k where k: "k < length (commits d)" "sha_matches p (commits d ! k)"
        "c = commits d ! k" "\<forall>j < k. \<not> sha_matches p (commits d ! j)"
      unfolding find_Some_iff by blast
    have "k \<le> i"
    proof (rule ccontr)
      assume "\<not> k \<le> i"
      then have "i < k" by simp
      with k(4) own show False by blast
    qed
    with c k show ?thesis
      unfolding p_def [symmetric] find_commit_def by (auto simp add: sha_matches_prefix)
  qed
  have c: "(case find_commit d q of
         None \<Rightarrow> status (medium_commit E d q) = 404
       | Some c \<Rightarrow> status (medium_commit E d q) = 200
                  \<and> body (medium_commit E d q) =
                      CommitDetailBody c
                        (map_option (\<lambda>a. (u_id a, u_name a, u_username a))
                           (getUserById E d (Num (c_author_id c))))
                        (map_option (\<lambda>r. (r_id r, r_name r))
                           (getRepoById E d (Num (c_repo_id c)))))"
    by (simp add: medium_commit_def Let_def split: option.split)
  show ?thesis using a b c built_commits_ids [of F] by blast
qed

theorem commit_lookup_first_match_witness:
  "find_commit two_commits (take 7 (c_sha (commits two_commits ! 1))) = Some (commits two_commits ! 0)
   \<and> find_commit two_commits (take 7 (c_sha (commits two_commits ! 0))) = Some (commits two_commits ! 0)
   \<and> find_commit two_commits ''abcdef09'' = Some (commits two_commits ! 1)
   \<and> status (medium_commit demo_engine two_commits ''abcdef0'') = 200
   \<and> status (medium_commit demo_engine two_commits ''0123'') = 404"
  using commit_lookup_first_match [of two_commits "''abcdef0''" demo_engine demo_faker]
        commit_lookup_first_match [of two_commits "''abcdef09''" demo_engine demo_faker]
        commit_lookup_first_match [of two_commits "''0123''" demo_engine demo_faker]
  by (simp add: two_commits_def find_commit_def sha_matches_def)

section \<open>File content and the random generator\<close>




subsection \<open>The state of the concrete generator after loading\<close>











section \<open>Pagination of the hard-tier commits\<close>

lemma bitlen_2_53: "bitlen 9007199254740992 = 54"
  by (simp add: bitlen.simps)

lemma round_to_double_2_53: "round_to_double 9007199254740992 = 9007199254740992"
  by (simp add: round_to_double_def bitlen_2_53)

lemma fl_exact_le:
  assumes "\<bar>x\<bar> \<le> 2 ^ 53"
  shows "fl x = Num x"
proof (cases "\<bar>x\<bar> < 2 ^ 53")
  case True
  then show ?thesis by (rule fl_exact)
next
  case False
  with assms have "\<bar>x\<bar> = 9007199254740992" by simp
  then show ?thesis
    by (auto simp add: fl_def round_to_double_2_53 Let_def)
qed

lemma hard_repo_commits_5:
  "hard_repo_commits E d (Num 5) q =
     \<lparr> status = 200, headers = [],
       body = CommitsPageBody (paginate E (getCommitsByRepo E d (Num 5)) (requested_page q) (Num 5))
                (Some (requested_page q)) True
                (Some ''This endpoint intentionally creates an infinite loop for testing'') \<rparr>"
  by (simp add: hard_repo_commits_def Let_def)

lemma hard_repo_commits_normal:
  assumes "\<not> js_mod_is_zero repoId 7" "repoId \<noteq> Num 13" "repoId \<noteq> Num 5"
  shows "\<exists>t. total_pages (paginate E (getCommitsByRepo E d repoId) (requested_page q) (Num 10))
                = Num t
           \<and> t = (int (length (getCommitsByRepo E d repoId)) + 9) div 10
           \<and> page (paginate E (getCommitsByRepo E d repoId) (requested_page q) (Num 10))
                = parseInt_num E (requested_page q)
           \<and> hard_repo_commits E d repoId q =
               \<lparr> status = 200, headers = [],
                 body = CommitsPageBody
                          (paginate E (getCommitsByRepo E d repoId) (requested_page q) (Num 10))
                          (if js_lt (parseInt_num E (requested_page q)) (Num t)
                           then Some (js_add (parseInt_num E (requested_page q)) (Num 1))
                           else None)
                          (js_lt (parseInt_num E (requested_page q)) (Num t))
                          None \<rparr>"
proof -
  obtain t where t: "ceil_div (int (length (getCommitsByRepo E d repoId))) (Num 10) = Num t"
     "t = (int (length (getCommitsByRepo E d repoId)) + 10 - 1) div 10"
    using ceil_div_pos [of 10 "int (length (getCommitsByRepo E d repoId))"] by auto
  show ?thesis
    using assms t
    by (intro exI [of _ t])
       (simp add: hard_repo_commits_def paginate_def Let_def del: parseInt_num.simps ceil_div.simps)
qed

lemma hard_repo_commits_safe:
  assumes "\<not> js_mod_is_zero repoId 7" "repoId \<noteq> Num 13" "repoId \<noteq> Num 5"
    and "p \<noteq> 0" "\<bar>p\<bar> < 2 ^ 53"
  shows "next_page (body (hard_repo_commits E d repoId (Num p)))
           = (if p < (int (length (getCommitsByRepo E d repoId)) + 9) div 10
              then Some (Num (p + 1)) else None)
       \<and> has_more (body (hard_repo_commits E d repoId (Num p)))
           = (p < (int (length (getCommitsByRepo E d repoId)) + 9) div 10)"
proof -
  have rp: "requested_page (Num p) = Num p"
    using assms(4) by (simp add: requested_page_def)
  have "(2::int) ^ 53 < 10 ^ 21" by simp
  with assms(5) have "\<bar>p\<bar> < 10 ^ 21" by linarith
  then have pi: "parseInt_num E (Num p) = Num p" by simp
  have "\<bar>p + 1\<bar> \<le> 2 ^ 53" using assms(5) by simp
  then have f: "fl (p + 1) = Num (p + 1)" by (rule fl_exact_le)
  obtain t where t: "t = (int (length (getCommitsByRepo E d repoId)) + 9) div 10"
    and h: "hard_repo_commits E d repoId (Num p) =
               \<lparr> status = 200, headers = [],
                 body = CommitsPageBody
                          (paginate E (getCommitsByRepo E d repoId) (requested_page (Num p)) (Num 10))
                          (if js_lt (parseInt_num E (requested_page (Num p))) (Num t)
                           then Some (js_add (parseInt_num E (requested_page (Num p))) (Num 1))
                           else None)
                          (js_lt (parseInt_num E (requested_page (Num p))) (Num t))
                          None \<rparr>"
    using hard_repo_commits_normal [OF assms(1-3), of E d "Num p"] by blast
  show ?thesis
    unfolding h rp pi by (simp add: f t)
qed

text \<open>
  Claim C9, as amended. The handler's page is \<^verbatim>\<open>parseInt\<close> of the page parameter, or 1 when
  that is \<^verbatim>\<open>NaN\<close> or 0 (a missing, non-numeric or zero parameter). For repo id 5 every
  response has \<^verbatim>\<open>next_page\<close> equal to that page and \<^verbatim>\<open>has_more\<close> true. For every other repo
  id that reaches the normal branch (not a multiple of 7, not 13), the tests use the
  \<^verbatim>\<open>page\<close> field of the envelope, which is \<^verbatim>\<open>parseInt\<close> of the handler's page:
  \<^verbatim>\<open>next_page\<close> is that field plus one, as JavaScript adds, when the field is below
  \<^verbatim>\<open>total_pages\<close>, the ceiling of a tenth of the number of the repo's commits, and null
  otherwise, and \<^verbatim>\<open>has_more\<close> is true exactly when the field is below \<^verbatim>\<open>total_pages\<close>. For a
  requested page that is a nonzero integer of magnitude below \<open>2^53\<close> the field is the
  requested page and the sum is exact: \<^verbatim>\<open>next_page\<close> is the page plus one when the page is
  below \<^verbatim>\<open>total_pages\<close> and null otherwise.
\<close>

theorem hard_repo_commits_next_page:
  "requested_page (Num p) = (if p = 0 then Num 1 else Num p)
   \<and> requested_page NaN = Num 1
   \<and> requested_page Infinity = Infinity
   \<and> requested_page NegInfinity = NegInfinity
   \<and> hard_repo_commits E d (Num 5) q =
       \<lparr> status = 200, headers = [],
         body = CommitsPageBody
                  (paginate E (getCommitsByRepo E d (Num 5)) (requested_page q) (Num 5))
                  (Some (requested_page q)) True
                  (Some ''This endpoint intentionally creates an infinite loop for testing'') \<rparr>
   \<and> (\<not> js_mod_is_zero repoId 7 \<and> repoId \<noteq> Num 13 \<and> repoId \<noteq> Num 5 \<longrightarrow>
        (\<exists>t. total_pages (paginate E (getCommitsByRepo E d repoId) (requested_page q) (Num 10))
                = Num t
           \<and> t = (int (length (getCommitsByRepo E d repoId)) + 9) div 10
           \<and> page (paginate E (getCommitsByRepo E d repoId) (requested_page q) (Num 10))
                = parseInt_num E (requested_page q)
           \<and> hard_repo_commits E d repoId q =
               \<lparr> status = 200, headers = [],
                 body = CommitsPageBody
                          (paginate E (getCommitsByRepo E d repoId) (requested_page q) (Num 10))
                          (if js_lt (parseInt_num E (requested_page q)) (Num t)
                           then Some (js_add (parseInt_num E (requested_page q)) (Num 1))
                           else None)
                          (js_lt (parseInt_num E (requested_page q)) (Num t))
                          None \<rparr>))
   \<and> (\<not> js_mod_is_zero repoId 7 \<and> repoId \<noteq> Num 13 \<and> repoId \<noteq> Num 5
        \<and> p \<noteq> 0 \<and> \<bar>p\<bar> < 2 ^ 53 \<longrightarrow>
        next_page (body (hard_repo_commits E d repoId (Num p)))
           = (if p < (int (length (getCommitsByRepo E d repoId)) + 9) div 10
              then Some (Num (p + 1)) else None)
        \<and> has_more (body (hard_repo_commits E d repoId (Num p)))
           = (p < (int (length (getCommitsByRepo E d repoId)) + 9) div 10))"
proof -
  have a: "requested_page (Num p) = (if p = 0 then Num 1 else Num p)"
    "requested_page NaN = Num 1" "requested_page Infinity = Infinity"
    "requested_page NegInfinity = NegInfinity"
    by (simp_all add: requested_page_def)
  show ?thesis
    using a hard_repo_commits_5 [of E d q] hard_repo_commits_normal [of repoId E d q]
      hard_repo_commits_safe [of repoId p E d]
    by (intro conjI impI) blast+
qed

theorem hard_repo_commits_next_page_witness:
  "next_page (body (hard_repo_commits demo_engine two_commits (Num 1) (Num 1))) = None
   \<and> has_more (body (hard_repo_commits demo_engine two_commits (Num 1) (Num 1))) = False
   \<and> next_page (body (hard_repo_commits demo_engine two_commits (Num 1) (Num (- 2))))
       = Some (Num (- 1))
   \<and> has_more (body (hard_repo_commits demo_engine two_commits (Num 1) (Num (- 2)))) = True
   \<and> next_page (body (hard_repo_commits demo_engine two_commits (Num 5) (Num 3)))
       = Some (Num 3)
   \<and> has_more (body (hard_repo_commits demo_engine two_commits (Num 5) (Num 3))) = True"
  using hard_repo_commits_next_page [of 1 demo_engine two_commits "Num 1" "Num 1"]
        hard_repo_commits_next_page [of "- 2" demo_engine two_commits "Num 1" "Num 1"]
        hard_repo_commits_next_page [of 3 demo_engine two_commits "Num 3" "Num 1"]
  by (simp add: two_commits_def getCommitsByRepo_def)

text \<open>
  The claim as stated fails when page 0 is requested for repo 5: the response has
  \<^verbatim>\<open>next_page\<close> 1, not 0.
\<close>

theorem hard_repo_commits_next_page_counterexample:
  "next_page (body (hard_repo_commits demo_engine (built demo_faker) (Num 5) (Num 0)))
     = Some (Num 1)
   \<and> next_page (body (hard_repo_commits demo_engine (built demo_faker) (Num 5) (Num 0)))
     \<noteq> Some (Num 0)"
  by (simp add: hard_repo_commits_5 requested_page_def)

end
